theory Spec2Isabelle
  imports Complex_Main
begin

section \<open>Go library functions the exporter calls\<close>

text \<open>
  A Go \<open>string\<close> is a sequence of bytes, here a \<open>string\<close> (a list of 8-bit \<open>char\<close>).
  The functions of this section are the ones of packages \<open>strings\<close>, \<open>strconv\<close> and
  \<open>bufio\<close> that the exporter calls, written from their documented behaviour.
\<close>

subsection \<open>strings.Contains\<close>

fun HasPrefix :: "string \<Rightarrow> string \<Rightarrow> bool" where
  "HasPrefix s [] = True"
| "HasPrefix [] (p # ps) = False"
| "HasPrefix (c # cs) (p # ps) = (c = p \<and> HasPrefix cs ps)"

text \<open>\<open>Contains s substr\<close>: \<open>substr\<close> occurs in \<open>s\<close> as a run of consecutive bytes.\<close>

fun Contains :: "string \<Rightarrow> string \<Rightarrow> bool" where
  "Contains [] substr = (substr = [])"
| "Contains (c # cs) substr = (HasPrefix (c # cs) substr \<or> Contains cs substr)"

subsection \<open>strings.Split with a one-byte separator\<close>

text \<open>
  \<open>Split s sep\<close> cuts \<open>s\<close> at every occurrence of the separator and returns the pieces
  between them, \<open>n + 1\<close> pieces for \<open>n\<close> occurrences. The exporter only splits at
  \<open>":"\<close> and \<open>","\<close>, so the separator is one byte. \<open>SplitFrom\<close> carries the piece read
  so far.
\<close>

fun SplitFrom :: "char \<Rightarrow> string \<Rightarrow> string \<Rightarrow> string list" where
  "SplitFrom sep cur [] = [cur]"
| "SplitFrom sep cur (c # cs) =
     (if c = sep then cur # SplitFrom sep [] cs else SplitFrom sep (cur @ [c]) cs)"

definition Split :: "string \<Rightarrow> char \<Rightarrow> string list" where
  "Split s sep = SplitFrom sep [] s"

subsection \<open>White space: strings.TrimSpace and strings.Fields\<close>

text \<open>
  Both functions use \<open>unicode.IsSpace\<close> on the runes of the UTF-8 string: the ASCII
  characters tab, line feed, vertical tab, form feed, carriage return and space, and
  U+0085, U+00A0, U+1680, U+2000 to U+200A, U+2028, U+2029, U+202F, U+205F, U+3000.
  \<open>spaceLen s\<close> is the number of bytes of the UTF-8 encoding of a white-space rune that
  \<open>s\<close> starts with, and 0 when \<open>s\<close> starts with none. Every such encoding starts with a
  byte that is no continuation byte, so Go's decoder, which never steps over such a
  byte, finds a white-space rune exactly where its encoding stands.
\<close>

definition asciiSpace :: "char \<Rightarrow> bool" where
  "asciiSpace c =
     (c = CHR 0x09 \<or> c = CHR 0x0A \<or> c = CHR 0x0B \<or> c = CHR 0x0C \<or> c = CHR 0x0D \<or> c = CHR 0x20)"

fun spaceLen :: "string \<Rightarrow> nat" where
  "spaceLen [] = 0"
| "spaceLen (c # cs) =
     (if asciiSpace c then 1
      else if c = CHR 0xC2 then
        (case cs of
           d # _ \<Rightarrow> if d = CHR 0x85 \<or> d = CHR 0xA0 then 2 else 0
         | [] \<Rightarrow> 0)
      else if c = CHR 0xE1 then
        (case cs of
           d # e # _ \<Rightarrow> if d = CHR 0x9A \<and> e = CHR 0x80 then 3 else 0
         | _ \<Rightarrow> 0)
      else if c = CHR 0xE2 then
        (case cs of
           d # e # _ \<Rightarrow>
             if d = CHR 0x80 \<and>
                ((0x80 \<le> (of_char e :: nat) \<and> (of_char e :: nat) \<le> 0x8A)
                 \<or> e = CHR 0xA8 \<or> e = CHR 0xA9 \<or> e = CHR 0xAF)
               \<or> d = CHR 0x81 \<and> e = CHR 0x9F
             then 3 else 0
         | _ \<Rightarrow> 0)
      else if c = CHR 0xE3 then
        (case cs of
           d # e # _ \<Rightarrow> if d = CHR 0x80 \<and> e = CHR 0x80 then 3 else 0
         | _ \<Rightarrow> 0)
      else 0)"

text \<open>
  \<open>Fields s\<close> splits \<open>s\<close> around each run of white space and returns the non-empty
  pieces. \<open>FieldsFrom skip cur\<close> carries the field read so far and the number of bytes
  of the current white-space rune still to step over.
\<close>

fun FieldsFrom :: "nat \<Rightarrow> string \<Rightarrow> string \<Rightarrow> string list" where
  "FieldsFrom skip cur [] = (if cur = [] then [] else [cur])"
| "FieldsFrom skip cur (c # cs) =
     (if 0 < skip then FieldsFrom (skip - 1) cur cs
      else if 0 < spaceLen (c # cs) then
        (if cur = [] then [] else [cur]) @ FieldsFrom (spaceLen (c # cs) - 1) [] cs
      else FieldsFrom 0 (cur @ [c]) cs)"

definition Fields :: "string \<Rightarrow> string list" where
  "Fields s = FieldsFrom 0 [] s"

text \<open>
  \<open>TrimSpace s\<close> removes the leading and the trailing white space. \<open>lastSpaceLen\<close>
  reads a reversed string: the number of bytes of the white-space rune the string ends
  with (Go decodes the last rune of the string), 0 when it ends with none.
\<close>

fun TrimLeftFrom :: "nat \<Rightarrow> string \<Rightarrow> string" where
  "TrimLeftFrom skip [] = []"
| "TrimLeftFrom skip (c # cs) =
     (if 0 < skip then TrimLeftFrom (skip - 1) cs
      else if 0 < spaceLen (c # cs) then TrimLeftFrom (spaceLen (c # cs) - 1) cs
      else c # cs)"

definition lastSpaceLen :: "string \<Rightarrow> nat" where
  "lastSpaceLen r =
     (if spaceLen (rev (take 1 r)) = 1 then 1
      else if spaceLen (rev (take 2 r)) = 2 then 2
      else if spaceLen (rev (take 3 r)) = 3 then 3
      else 0)"

fun TrimRightFrom :: "nat \<Rightarrow> string \<Rightarrow> string" where
  "TrimRightFrom skip [] = []"
| "TrimRightFrom skip (c # cs) =
     (if 0 < skip then TrimRightFrom (skip - 1) cs
      else if 0 < lastSpaceLen (c # cs) then TrimRightFrom (lastSpaceLen (c # cs) - 1) cs
      else c # cs)"

definition TrimSpace :: "string \<Rightarrow> string" where
  "TrimSpace s = rev (TrimRightFrom 0 (rev (TrimLeftFrom 0 s)))"

subsection \<open>strconv.ParseUint, strconv.ParseInt and strconv.Atoi\<close>

text \<open>
  The numerals are decimal and the types 64 bits wide. \<open>ParseUint\<close> reads the bytes from
  left to right with the value so far: a byte that is no digit ends it with a syntax
  error and the value 0; a digit at which the value would pass the largest \<open>uint64\<close> ends
  it with a range error and that largest value. Whichever comes first in the string
  decides, so a numeral that overflows before a bad byte is a range error.
  \<open>ParseInt\<close> takes one sign off, calls \<open>ParseUint\<close>, passes a syntax error on with the
  value 0 and answers a magnitude out of range with the nearest bound of \<open>int64\<close> and a
  range error. \<open>Atoi s\<close> returns what \<open>ParseInt(s, 10, 0)\<close> returns; its fast path for
  short strings gives the same values and errors.
\<close>

datatype NumError = ErrSyntax | ErrRange

definition isDigit :: "char \<Rightarrow> bool" where
  "isDigit c = (48 \<le> (of_char c :: nat) \<and> (of_char c :: nat) \<le> 57)"

definition maxUint64 :: nat where
  "maxUint64 = 2 ^ 64 - 1"

fun ParseUint_digits :: "nat \<Rightarrow> string \<Rightarrow> NumError + nat" where
  "ParseUint_digits n [] = Inr n"
| "ParseUint_digits n (c # cs) =
     (if \<not> isDigit c then Inl ErrSyntax
      else if n \<ge> maxUint64 div 10 + 1 then Inl ErrRange
      else if n * 10 + (of_char c - 48) > maxUint64 then Inl ErrRange
      else ParseUint_digits (n * 10 + (of_char c - 48)) cs)"

definition ParseUint :: "string \<Rightarrow> nat \<times> NumError option" where
  "ParseUint s =
     (if s = [] then (0, Some ErrSyntax)
      else (case ParseUint_digits 0 s of
              Inl ErrSyntax \<Rightarrow> (0, Some ErrSyntax)
            | Inl ErrRange \<Rightarrow> (maxUint64, Some ErrRange)
            | Inr n \<Rightarrow> (n, None)))"

definition ParseInt :: "string \<Rightarrow> int \<times> NumError option" where
  "ParseInt s0 =
     (if s0 = [] then (0, Some ErrSyntax)
      else let neg = (hd s0 = CHR ''-'');
               s = (if hd s0 = CHR ''+'' \<or> hd s0 = CHR ''-'' then tl s0 else s0);
               un = fst (ParseUint s);
               err = snd (ParseUint s)
           in if err = Some ErrSyntax then (0, Some ErrSyntax)
              else if \<not> neg \<and> un \<ge> 2 ^ 63 then (2 ^ 63 - 1, Some ErrRange)
              else if neg \<and> un > 2 ^ 63 then (- (2 ^ 63), Some ErrRange)
              else (if neg then - int un else int un, None))"

definition Atoi :: "string \<Rightarrow> int \<times> NumError option" where
  "Atoi s = ParseInt s"

subsection \<open>bufio.Scanner with the default split function ScanLines\<close>

text \<open>
  \<open>ScanLines\<close> returns each line of the input without its end-of-line marker, a line
  feed with one optional carriage return before it; the last line needs no line feed,
  and an empty input has no line. The scanner's buffer holds \<open>MaxScanTokenSize\<close> bytes:
  at a line that does not fit, \<open>Scan\<close> returns false and the loop over the lines ends
  there. \<open>Scan content\<close> is the list of the lines the loop \<open>for scanner.Scan()\<close> sees.
\<close>

definition MaxScanTokenSize :: nat where
  "MaxScanTokenSize = 64 * 1024"

fun rawLinesFrom :: "string \<Rightarrow> string \<Rightarrow> string list" where
  "rawLinesFrom cur [] = (if cur = [] then [] else [cur])"
| "rawLinesFrom cur (c # cs) =
     (if c = CHR 0x0A then cur # rawLinesFrom [] cs else rawLinesFrom (cur @ [c]) cs)"

definition dropCR :: "string \<Rightarrow> string" where
  "dropCR l = (if l \<noteq> [] \<and> last l = CHR 0x0D then butlast l else l)"

definition Scan :: "string \<Rightarrow> string list" where
  "Scan content =
     map dropCR (takeWhile (\<lambda>l. length l < MaxScanTokenSize) (rawLinesFrom [] content))"

section \<open>The metrics collector: apply log, refresh log, outcome\<close>

text \<open>
  The four named results of \<open>parseLogStats\<close>. A file is given by what opening and
  reading it yields: \<open>Inl msg\<close> when \<open>os.Open\<close> or \<open>os.ReadFile\<close> fails, \<open>Inr bytes\<close>
  otherwise.
\<close>

record LogStats =
  added :: int
  changed :: int
  destroyed :: int
  imported :: int

definition noStats :: LogStats where
  "noStats = \<lparr>added = 0, changed = 0, destroyed = 0, imported = 0\<rparr>"

text \<open>The body of the loop over the comma-separated segments of the statistics clause.\<close>

definition parseLogStats_stat :: "LogStats \<Rightarrow> string \<Rightarrow> LogStats" where
  "parseLogStats_stat st stat =
     (let parts = Fields (TrimSpace stat)
      in if length parts < 2 then st
         else let count = fst (Atoi (parts ! 0))
              in if parts ! 1 = ''added'' then st\<lparr>added := count\<rparr>
                 else if parts ! 1 = ''changed'' then st\<lparr>changed := count\<rparr>
                 else if parts ! 1 = ''destroyed'' then st\<lparr>destroyed := count\<rparr>
                 else if parts ! 1 = ''imported'' then st\<lparr>imported := count\<rparr>
                 else st)"

text \<open>The body of the loop over the lines of the transcript.\<close>

definition parseLogStats_line :: "LogStats \<Rightarrow> string \<Rightarrow> LogStats" where
  "parseLogStats_line st line =
     (if Contains line ''Apply complete!'' then
        (let fields = Split line CHR '':''
         in if length fields < 2 then st
            else foldl parseLogStats_stat st (Split (fields ! 1) CHR '',''))
      else st)"

definition parseLogStats :: "string + string \<Rightarrow> LogStats" where
  "parseLogStats file =
     (case file of
        Inl err \<Rightarrow> noStats
      | Inr content \<Rightarrow> foldl parseLogStats_line noStats (Scan content))"

text \<open>
  \<open>detectDrift\<close> returns the value of the drift gauge and the lines it prints.
\<close>

definition detectDrift :: "string + string \<Rightarrow> real \<times> string list" where
  "detectDrift file =
     (case file of
        Inl err \<Rightarrow> (0, [''Error reading refresh log: '' @ err])
      | Inr logContent \<Rightarrow>
          if Contains logContent
               ''No changes. Your infrastructure still matches the configuration.''
          then (0, [])
          else if Contains logContent ''Refreshing state...'' then (1, [])
          else (0, []))"

text \<open>
  The second error marker starts with the box-drawing character U+2502, in UTF-8 the
  bytes E2 94 82. \<open>isTerraformRunSuccessful_scan\<close> is the loop over the lines.
\<close>

definition boxError :: string where
  "boxError = [CHR 0xE2, CHR 0x94, CHR 0x82] @ '' Error''"

fun isTerraformRunSuccessful_scan :: "string list \<Rightarrow> bool" where
  "isTerraformRunSuccessful_scan [] = True"
| "isTerraformRunSuccessful_scan (line # rest) =
     (if Contains line ''Error:'' \<or> Contains line boxError then False
      else isTerraformRunSuccessful_scan rest)"

definition isTerraformRunSuccessful :: "string + string \<Rightarrow> bool" where
  "isTerraformRunSuccessful file =
     (case file of
        Inl err \<Rightarrow> False
      | Inr content \<Rightarrow> isTerraformRunSuccessful_scan (Scan content))"

section \<open>The plan document\<close>

record Change =
  Actions :: "string list"

record ResourceChange =
  Type :: string
  Change :: Change

text \<open>
  The plan exporter declares \<open>PlanJSON\<close> without the field \<open>Timestamp\<close>, which it never
  reads; one record serves both programs.
\<close>

record PlanJSON =
  Timestamp :: string
  ResourceChanges :: "ResourceChange list"

definition zeroPlanJSON :: PlanJSON where
  "zeroPlanJSON = \<lparr>Timestamp = [], ResourceChanges = []\<rparr>"

fun contains :: "string list \<Rightarrow> string \<Rightarrow> bool" where
  "contains [] val = False"
| "contains (item # slice) val = (if item = val then True else contains slice val)"

section \<open>What the programs read from outside\<close>

text \<open>
  The environment, the files, the clock, the JSON decoder, the RFC 3339 parser and the
  push gateway are parameters:
  \<^item> \<open>Getenv\<close> is \<open>os.Getenv\<close>;
  \<^item> \<open>Open path\<close> is \<open>Inl msg\<close> when \<open>os.Open\<close> fails, else \<open>Inr\<close> of the bytes the
    scanner reads from the file;
  \<^item> \<open>ReadFile path\<close> is \<open>Inl msg\<close> when \<open>os.ReadFile\<close> fails, else \<open>Inr\<close> of the
    bytes of the file;
  \<^item> \<open>Unmarshal data\<close> is the \<open>PlanJSON\<close> that \<open>json.Unmarshal(data, &plan)\<close> leaves in
    a zero-valued \<open>plan\<close>, and its error (\<open>None\<close> for \<open>nil\<close>); when decoding fails on a
    value of the wrong type, the fields decoded so far stay filled;
  \<^item> \<open>Since start\<close> is \<open>time.Since(time.Unix(start, 0)).Seconds()\<close> and \<open>NowUnix\<close> is
    \<open>time.Now().Unix()\<close>;
  \<^item> \<open>ParseRFC3339 s\<close> is the Unix time of \<open>time.Parse(time.RFC3339, s)\<close>, \<open>None\<close> when
    it fails;
  \<^item> \<open>Push url job grouping collectors\<close> is the error of the push (\<open>None\<close> for \<open>nil\<close>).
\<close>

record Gauge =
  gname :: string
  ghelp :: string
  gvalue :: real

record World =
  Getenv :: "string \<Rightarrow> string"
  Open :: "string \<Rightarrow> string + string"
  ReadFile :: "string \<Rightarrow> string + string"
  Unmarshal :: "string \<Rightarrow> PlanJSON \<times> string option"
  Since :: "int \<Rightarrow> real"
  NowUnix :: int
  ParseRFC3339 :: "string \<Rightarrow> int option"
  Push :: "string \<Rightarrow> string \<Rightarrow> (string \<times> string) list \<Rightarrow> (string \<rightharpoonup> Gauge) \<Rightarrow> string option"

section \<open>The metrics collector: collectMetrics\<close>

definition makeGauge :: "string \<Rightarrow> string \<Rightarrow> real \<Rightarrow> (string \<rightharpoonup> Gauge) \<Rightarrow> (string \<rightharpoonup> Gauge)" where
  "makeGauge name hlp val metrics = metrics(name \<mapsto> \<lparr>gname = name, ghelp = hlp, gvalue = val\<rparr>)"

record PlanTally =
  total :: int
  toAdd :: int
  toChange :: int
  toDestroy :: int
  toImport :: int

definition zeroTally :: PlanTally where
  "zeroTally = \<lparr>total = 0, toAdd = 0, toChange = 0, toDestroy = 0, toImport = 0\<rparr>"

text \<open>The body of the loop that tallies the resource changes.\<close>

definition collectMetrics_tally :: "PlanTally \<Rightarrow> ResourceChange \<Rightarrow> PlanTally" where
  "collectMetrics_tally t rc =
     (let actions = Actions (Change rc);
          t1 = t\<lparr>total := total t + 1\<rparr>;
          t2 = (if contains actions ''create'' then t1\<lparr>toAdd := toAdd t1 + 1\<rparr> else t1);
          t3 = (if contains actions ''update'' then t2\<lparr>toChange := toChange t2 + 1\<rparr> else t2);
          t4 = (if contains actions ''delete'' then t3\<lparr>toDestroy := toDestroy t3 + 1\<rparr> else t3)
      in if contains actions ''import'' then t4\<lparr>toImport := toImport t4 + 1\<rparr> else t4)"

text \<open>
  \<open>collectMetrics_plan\<close> is the plan the tally runs over: the zero value when the file
  cannot be read, else what the decoder left, its error dropped.
\<close>

definition collectMetrics_plan :: "World \<Rightarrow> PlanJSON" where
  "collectMetrics_plan w =
     (case ReadFile w (Getenv w ''TERRAFORM_PLAN_PATH'') of
        Inl err \<Rightarrow> zeroPlanJSON
      | Inr planFile \<Rightarrow> fst (Unmarshal w planFile))"

text \<open>
  \<open>collectMetrics_gauges\<close> lists the calls of \<open>makeGauge\<close> in the order the function
  makes them, each with its name, help text and value.
\<close>

definition collectMetrics_gauges :: "World \<Rightarrow> (string \<times> string \<times> real) list" where
  "collectMetrics_gauges w =
     (let planPath = Getenv w ''TERRAFORM_PLAN_PATH'';
          applyLogPath = Getenv w ''TERRAFORM_APPLY_LOG_PATH'';
          refreshLogPath = Getenv w ''TERRAFORM_REFRESH_LOG_PATH'';
          startTimeEnv = Getenv w ''TERRAFORM_START_TIME'';
          startUnix = fst (ParseInt startTimeEnv);
          execDuration = Since w startUnix;
          drift = fst (detectDrift (ReadFile w refreshLogPath));
          plan = collectMetrics_plan w;
          t = foldl collectMetrics_tally zeroTally (ResourceChanges plan);
          timestamp =
            (if Timestamp plan \<noteq> [] then
               (case ParseRFC3339 w (Timestamp plan) of
                  Some parsedTime \<Rightarrow> real_of_int parsedTime
                | None \<Rightarrow> real_of_int (NowUnix w))
             else real_of_int (NowUnix w));
          resultLogPath = (if applyLogPath \<noteq> [] then applyLogPath else planPath)
      in [(''terraform_execution_duration_seconds'', ''Time taken for execution'', execDuration),
          (''terraform_timestamp'', ''Unix timestamp of run'', timestamp),
          (''terraform_drift_detected'', ''Drift found during refresh'', drift),
          (''terraform_resources_total'', ''Total planned resource changes'', real_of_int (total t)),
          (''terraform_to_add'', ''Resources planned to be added'', real_of_int (toAdd t)),
          (''terraform_to_change'', ''Resources planned to be changed'', real_of_int (toChange t)),
          (''terraform_to_destroy'', ''Resources planned to be destroyed'', real_of_int (toDestroy t)),
          (''terraform_to_import'', ''Resources planned to be imported'', real_of_int (toImport t))]
         @ (if applyLogPath \<noteq> [] then
              (let s = parseLogStats (Open w applyLogPath)
               in [(''terraform_added'', ''Resources actually added'', real_of_int (added s)),
                   (''terraform_changed'', ''Resources actually changed'', real_of_int (changed s)),
                   (''terraform_destroyed'', ''Resources actually destroyed'', real_of_int (destroyed s)),
                   (''terraform_imported'', ''Resources actually imported'', real_of_int (imported s))])
            else [])
         @ [(''terraform_result'', ''1=success, 0=failure'',
             if isTerraformRunSuccessful (Open w resultLogPath) then 1 else 0)])"

definition collectMetrics_metrics :: "World \<Rightarrow> (string \<rightharpoonup> Gauge)" where
  "collectMetrics_metrics w =
     foldl (\<lambda>metrics (name, hlp, val). makeGauge name hlp val metrics) Map.empty
       (collectMetrics_gauges w)"

text \<open>
  \<open>collectMetrics\<close> returns the error of the push and nothing else. The pusher takes
  the gauges of the map in no fixed order, so it is given the map.
\<close>

definition collectMetrics :: "World \<Rightarrow> string option" where
  "collectMetrics w =
     Push w (''http://'' @ Getenv w ''PUSHGATEWAY_URL'' @ '':9091'') (Getenv w ''PUSHGATEWAY_JOB'')
       [(''instance'', Getenv w ''GITHUB_RUN_ID''),
        (''commit_message'', Getenv w ''COMMIT_MESSAGE''),
        (''workflow_name'', Getenv w ''GITHUB_WORKFLOW''),
        (''job'', Getenv w ''PUSHGATEWAY_JOB'')]
       (collectMetrics_metrics w)"

section \<open>The plan exporter: parseTerraformPlan\<close>

text \<open>
  The plan exporter keeps one global gauge per metric; \<open>PlanGauges\<close> holds their
  values, 0 when the program starts. \<open>parseTerraformPlan\<close> returns its error and the
  gauges as it leaves them.
\<close>

datatype error = ReadFileError string | UnmarshalError string

record PlanGauges =
  resourcesTotal :: real
  resourcesAdded :: real
  resourcesChanged :: real
  resourcesDestroyed :: real
  executionDuration :: real
  executionSuccess :: real
  driftDetected :: real

definition initialGauges :: PlanGauges where
  "initialGauges =
     \<lparr>resourcesTotal = 0, resourcesAdded = 0, resourcesChanged = 0, resourcesDestroyed = 0,
      executionDuration = 0, executionSuccess = 0, driftDetected = 0\<rparr>"

record PlanCounts =
  p_total :: int
  p_added :: int
  p_changed :: int
  p_destroyed :: int
  p_drift :: int

definition zeroCounts :: PlanCounts where
  "zeroCounts = \<lparr>p_total = 0, p_added = 0, p_changed = 0, p_destroyed = 0, p_drift = 0\<rparr>"

text \<open>The body of the loop over the resource changes.\<close>

definition parseTerraformPlan_count :: "PlanCounts \<Rightarrow> ResourceChange \<Rightarrow> PlanCounts" where
  "parseTerraformPlan_count t rc =
     (let actions = Actions (Change rc);
          t1 = t\<lparr>p_total := p_total t + 1\<rparr>;
          t2 = (if contains actions ''create'' then t1\<lparr>p_added := p_added t1 + 1\<rparr> else t1);
          t3 = (if contains actions ''update'' then t2\<lparr>p_changed := p_changed t2 + 1\<rparr> else t2);
          t4 = (if contains actions ''delete'' then t3\<lparr>p_destroyed := p_destroyed t3 + 1\<rparr> else t3)
      in if length actions = 1 \<and> actions ! 0 = ''update'' then t4\<lparr>p_drift := p_drift t4 + 1\<rparr>
         else t4)"

definition min_go :: "int \<Rightarrow> int \<Rightarrow> int" where
  "min_go a b = (if a < b then a else b)"

definition parseTerraformPlan :: "World \<Rightarrow> string \<Rightarrow> PlanGauges \<Rightarrow> error option \<times> PlanGauges" where
  "parseTerraformPlan w path g =
     (case ReadFile w path of
        Inl err \<Rightarrow> (Some (ReadFileError err), g)
      | Inr data \<Rightarrow>
          (case Unmarshal w data of
             (plan, Some err) \<Rightarrow> (Some (UnmarshalError err), g)
           | (plan, None) \<Rightarrow>
               (let t = foldl parseTerraformPlan_count zeroCounts (ResourceChanges plan)
                in (None,
                    g\<lparr>resourcesTotal := real_of_int (p_total t),
                      resourcesAdded := real_of_int (p_added t),
                      resourcesChanged := real_of_int (p_changed t),
                      resourcesDestroyed := real_of_int (p_destroyed t),
                      driftDetected := real_of_int (min_go 1 (p_drift t))\<rparr>))))"

section \<open>Example runs\<close>

text \<open>
  The environment of the example runs names a plan file, an apply log and a refresh
  log. The plan of \<open>driftRun\<close> updates one resource, and its refresh log reports no
  change. In \<open>malformedRun\<close> the plan file is cut off in the middle and the decoder
  fails on it; \<open>absentRun\<close> is the same run without the plan file.
\<close>

definition exampleEnv :: "string \<Rightarrow> string" where
  "exampleEnv name =
     (if name = ''TERRAFORM_PLAN_PATH'' then ''plan.json''
      else if name = ''TERRAFORM_APPLY_LOG_PATH'' then ''apply.log''
      else if name = ''TERRAFORM_REFRESH_LOG_PATH'' then ''refresh.log''
      else if name = ''TERRAFORM_START_TIME'' then ''1700000000''
      else [])"

definition updatePlanBytes :: string where
  \<open>updatePlanBytes =
     ''{"resource_changes":[{"type":"aws_instance","change":{"actions":["update"]}}]}''\<close>

definition updatePlan :: PlanJSON where
  "updatePlan =
     \<lparr>Timestamp = [],
      ResourceChanges = [\<lparr>Type = ''aws_instance'', Change = \<lparr>Actions = [''update'']\<rparr>\<rparr>]\<rparr>"

definition cutPlanBytes :: string where
  \<open>cutPlanBytes = ''{"resource_changes":[{"type":"aws_instance","change":''\<close>

definition exampleApplyLog :: string where
  "exampleApplyLog =
     ''aws_instance.web: Modifications complete after 4s'' @ [CHR 0x0A] @
     ''Apply complete! Resources: 0 added, 1 changed, 0 destroyed.'' @ [CHR 0x0A]"

definition driftRun :: World where
  "driftRun =
     \<lparr>Getenv = exampleEnv,
      Open = (\<lambda>path. if path = ''apply.log'' then Inr exampleApplyLog
                     else Inl (''open '' @ path @ '': no such file or directory'')),
      ReadFile = (\<lambda>path.
         if path = ''plan.json'' then Inr updatePlanBytes
         else if path = ''refresh.log'' then
           Inr (''aws_instance.web: Refreshing state... [id=i-0abc]'' @ [CHR 0x0A] @
                ''No changes. Your infrastructure still matches the configuration.'' @ [CHR 0x0A])
         else Inl (''open '' @ path @ '': no such file or directory'')),
      Unmarshal = (\<lambda>data. if data = updatePlanBytes then (updatePlan, None)
                           else (zeroPlanJSON, Some ''unexpected end of JSON input'')),
      Since = (\<lambda>start. 42),
      NowUnix = 1700000042,
      ParseRFC3339 = (\<lambda>s. None),
      Push = (\<lambda>url job grouping collectors. None)\<rparr>"

definition malformedRun :: World where
  "malformedRun =
     driftRun\<lparr>ReadFile := (\<lambda>path. if path = ''plan.json'' then Inr cutPlanBytes
                                  else ReadFile driftRun path)\<rparr>"

definition absentRun :: World where
  "absentRun =
     driftRun\<lparr>ReadFile := (\<lambda>path.
        if path = ''plan.json'' then Inl ''open plan.json: no such file or directory''
        else ReadFile driftRun path)\<rparr>"


definition longLine :: string where
  "longLine = replicate 65536 CHR ''a''"

definition hiddenError :: string where
  "hiddenError = longLine @ [CHR 0x0A] @ ''Error: boom'' @ [CHR 0x0A]"


section \<open>Facts about the library functions\<close>

lemma contains_iff: "contains slice val \<longleftrightarrow> val \<in> set slice"
  by (induction slice) auto

lemma HasPrefix_iff: "HasPrefix s p \<longleftrightarrow> (\<exists>r. s = p @ r)"
  by (induction s p rule: HasPrefix.induct) auto

lemma Contains_iff: "Contains s sub \<longleftrightarrow> (\<exists>a b. s = a @ sub @ b)"
proof (induction s)
  case Nil
  then show ?case by auto
next
  case (Cons c cs)
  show ?case
  proof
    assume "Contains (c # cs) sub"
    then consider "HasPrefix (c # cs) sub" | "Contains cs sub" by auto
    then show "\<exists>a b. c # cs = a @ sub @ b"
    proof cases
      case 1
      then obtain r where "c # cs = sub @ r" by (auto simp: HasPrefix_iff)
      then have "c # cs = [] @ sub @ r" by simp
      then show ?thesis by blast
    next
      case 2
      then obtain a b where "cs = a @ sub @ b" using Cons.IH by auto
      then have "c # cs = (c # a) @ sub @ b" by simp
      then show ?thesis by blast
    qed
  next
    assume "\<exists>a b. c # cs = a @ sub @ b"
    then obtain a b where ab: "c # cs = a @ sub @ b" by auto
    show "Contains (c # cs) sub"
    proof (cases a)
      case Nil
      then have "HasPrefix (c # cs) sub" using ab by (auto simp: HasPrefix_iff)
      then show ?thesis by simp
    next
      case (Cons x a')
      then have "cs = a' @ sub @ b" using ab by simp
      then have "Contains cs sub" using Cons.IH by auto
      then show ?thesis by simp
    qed
  qed
qed

lemma Contains_append: "Contains s sub \<Longrightarrow> Contains (s @ t) sub"
proof -
  assume "Contains s sub"
  then obtain a b where "s = a @ sub @ b" by (auto simp: Contains_iff)
  then have "s @ t = a @ sub @ (b @ t)" by simp
  then show ?thesis unfolding Contains_iff by blast
qed















lemma Contains_snoc:
  assumes "sub \<noteq> []" and "last sub \<noteq> c"
  shows "Contains (s @ [c]) sub = Contains s sub"
proof
  assume "Contains (s @ [c]) sub"
  then obtain a b where ab: "s @ [c] = a @ sub @ b" by (auto simp: Contains_iff)
  have "b \<noteq> []"
  proof
    assume "b = []"
    then have "last (s @ [c]) = last (a @ sub)" using ab by simp
    then show False using assms by simp
  qed
  then obtain b' where b: "b = b' @ [last b]" by (metis append_butlast_last_id)
  then have "s @ [c] = (a @ sub @ b') @ [last b]" using ab by (metis append.assoc)
  then have "s = a @ sub @ b'" by simp
  then show "Contains s sub" unfolding Contains_iff by blast
next
  assume "Contains s sub"
  then show "Contains (s @ [c]) sub" by (rule Contains_append)
qed

lemma Contains_dropCR:
  assumes "sub \<noteq> []" and "last sub \<noteq> CHR 0x0D"
  shows "Contains (dropCR l) sub = Contains l sub"
proof (cases "l \<noteq> [] \<and> last l = CHR 0x0D")
  case True
  then have "l = butlast l @ [CHR 0x0D]" by (metis append_butlast_last_id)
  then have "Contains l sub = Contains (butlast l) sub"
    using Contains_snoc [OF assms, of "butlast l"] by simp
  then show ?thesis using True by (simp add: dropCR_def del: Contains.simps)
next
  case False
  then show ?thesis by (auto simp: dropCR_def simp del: Contains.simps)
qed

lemma rawLinesFrom_line:
  "CHR 0x0A \<notin> set xs \<Longrightarrow> rawLinesFrom cur (xs @ CHR 0x0A # ys) = (cur @ xs) # rawLinesFrom [] ys"
  by (induction xs arbitrary: cur) auto

lemma Scan_subset: "l \<in> set (Scan content) \<Longrightarrow> \<exists>r \<in> set (rawLinesFrom [] content). l = dropCR r"
  by (auto simp: Scan_def dest: set_takeWhileD)

lemma Scan_reached:
  assumes "rawLinesFrom [] content = before @ l # after"
    and "\<forall>x \<in> set (before @ [l]). length x < MaxScanTokenSize"
  shows "Scan content =
           map dropCR before @ dropCR l #
           map dropCR (takeWhile (\<lambda>x. length x < MaxScanTokenSize) after)"
  using assms by (simp add: Scan_def takeWhile_append2)

lemma Scan_long_line:
  assumes "CHR 0x0A \<notin> set xs" and "MaxScanTokenSize \<le> length xs"
  shows "Scan (xs @ CHR 0x0A # ys) = []"
  using assms by (simp add: Scan_def rawLinesFrom_line)

lemma longLine_facts: "CHR 0x0A \<notin> set longLine" "MaxScanTokenSize \<le> length longLine"
  by (simp_all add: longLine_def MaxScanTokenSize_def)

lemma markers: "''Error:'' \<noteq> []" "last ''Error:'' \<noteq> CHR 0x0D" "boxError \<noteq> []"
  "last boxError \<noteq> CHR 0x0D" "''Apply complete!'' \<noteq> []" "last ''Apply complete!'' \<noteq> CHR 0x0D"
  by (simp_all add: boxError_def)

section \<open>The apply log\<close>






























lemma Atoi_bad_byte: "Atoi ''12x'' = (0, Some ErrSyntax)"
  by (simp add: Atoi_def ParseInt_def ParseUint_def isDigit_def maxUint64_def)

lemma Atoi_overflow_first: "Atoi ''99999999999999999999x'' = (2 ^ 63 - 1, Some ErrRange)"
  by (simp add: Atoi_def ParseInt_def ParseUint_def isDigit_def maxUint64_def)

lemma Atoi_bounds:
  "Atoi ''9223372036854775807'' = (2 ^ 63 - 1, None)"
  "Atoi ''9223372036854775808'' = (2 ^ 63 - 1, Some ErrRange)"
  "Atoi ''-9223372036854775808'' = (- (2 ^ 63), None)"
  "Atoi ''-9223372036854775809'' = (- (2 ^ 63), Some ErrRange)"
  by (simp_all add: Atoi_def ParseInt_def ParseUint_def isDigit_def maxUint64_def)















section \<open>The refresh log and the outcome\<close>

text \<open>
  C7. \<open>detectDrift\<close> reports no drift (0) for every text that contains the phrase
  \<open>No changes. Your infrastructure still matches the configuration.\<close>, also when
  \<open>Refreshing state...\<close> occurs in it; drift (1) for every text that contains
  \<open>Refreshing state...\<close> and not the phrase; no drift for a text with neither; and, when
  the file cannot be read, no drift and one printed line that reports the error.
\<close>

theorem detectDrift_rule:
  "(Contains text ''No changes. Your infrastructure still matches the configuration.''
      \<longrightarrow> detectDrift (Inr text) = (0, [])) \<and>
   (Contains text ''Refreshing state...'' \<and>
    \<not> Contains text ''No changes. Your infrastructure still matches the configuration.''
      \<longrightarrow> detectDrift (Inr text) = (1, [])) \<and>
   (\<not> Contains text ''Refreshing state...'' \<and>
    \<not> Contains text ''No changes. Your infrastructure still matches the configuration.''
      \<longrightarrow> detectDrift (Inr text) = (0, [])) \<and>
   detectDrift (Inl err) = (0, [''Error reading refresh log: '' @ err])"
  by (simp add: detectDrift_def del: Contains.simps)

theorem detectDrift_rule_witness:
  "detectDrift
     (Inr (''aws_instance.web: Refreshing state... [id=i-0abc]'' @ [CHR 0x0A] @
           ''No changes. Your infrastructure still matches the configuration.'')) = (0, []) \<and>
   detectDrift (Inr ''aws_instance.web: Refreshing state... [id=i-0abc]'') = (1, []) \<and>
   detectDrift (Inr ''Terraform has been successfully initialized!'') = (0, []) \<and>
   detectDrift (Inl ''open refresh.log: no such file or directory'') =
     (0, [''Error reading refresh log: open refresh.log: no such file or directory''])"
proof -
  have 1: "Contains (''aws_instance.web: Refreshing state... [id=i-0abc]'' @ [CHR 0x0A] @
           ''No changes. Your infrastructure still matches the configuration.'')
           ''No changes. Your infrastructure still matches the configuration.''"
    by simp
  have 2: "Contains ''aws_instance.web: Refreshing state... [id=i-0abc]'' ''Refreshing state...'' \<and>
    \<not> Contains ''aws_instance.web: Refreshing state... [id=i-0abc]''
        ''No changes. Your infrastructure still matches the configuration.''"
    by simp
  have 3: "\<not> Contains ''Terraform has been successfully initialized!'' ''Refreshing state...'' \<and>
    \<not> Contains ''Terraform has been successfully initialized!''
        ''No changes. Your infrastructure still matches the configuration.''"
    by simp
  note r = detectDrift_rule
  show ?thesis
    using r [of "''aws_instance.web: Refreshing state... [id=i-0abc]'' @ [CHR 0x0A] @
           ''No changes. Your infrastructure still matches the configuration.''"
           "''open refresh.log: no such file or directory''"] 1
      r [of "''aws_instance.web: Refreshing state... [id=i-0abc]''"] 2
      r [of "''Terraform has been successfully initialized!''"] 3
    by (simp del: Contains.simps)
qed

lemma isTerraformRunSuccessful_scan_iff:
  "isTerraformRunSuccessful_scan ls \<longleftrightarrow>
     (\<forall>l \<in> set ls. \<not> Contains l ''Error:'' \<and> \<not> Contains l boxError)"
  by (induction ls) (auto simp del: Contains.simps)

lemma marker_line:
  "(Contains (dropCR l) ''Error:'' \<or> Contains (dropCR l) boxError) =
   (Contains l ''Error:'' \<or> Contains l boxError)"
  by (simp only: Contains_dropCR [OF markers(1) markers(2)] Contains_dropCR [OF markers(3) markers(4)])

text \<open>
  C8, as amended. \<open>isTerraformRunSuccessful\<close> returns false for every transcript in
  which some line contains \<open>Error:\<close> or the box-drawing marker followed by \<open> Error\<close>,
  when that line and every line before it are shorter than the scanner's buffer of
  65536 bytes; true for every transcript that opens and has no line with either marker;
  false when the file cannot be opened. In general the result is false exactly when
  one of the lines the scanner reads contains a marker: the scanner stops at the first
  line that does not fit its buffer, and its error is never read.
\<close>

theorem isTerraformRunSuccessful_rule:
  "(rawLinesFrom [] content = before @ l # after \<and>
    (\<forall>x \<in> set (before @ [l]). length x < MaxScanTokenSize) \<and>
    (Contains l ''Error:'' \<or> Contains l boxError)
      \<longrightarrow> \<not> isTerraformRunSuccessful (Inr content)) \<and>
   ((\<forall>x \<in> set (rawLinesFrom [] content). \<not> Contains x ''Error:'' \<and> \<not> Contains x boxError)
      \<longrightarrow> isTerraformRunSuccessful (Inr content)) \<and>
   \<not> isTerraformRunSuccessful (Inl err) \<and>
   ((\<exists>x \<in> set (Scan content). Contains x ''Error:'' \<or> Contains x boxError)
      \<longrightarrow> \<not> isTerraformRunSuccessful (Inr content)) \<and>
   ((\<forall>x \<in> set (Scan content). \<not> Contains x ''Error:'' \<and> \<not> Contains x boxError)
      \<longrightarrow> isTerraformRunSuccessful (Inr content))"
proof (intro conjI impI)
  assume a: "rawLinesFrom [] content = before @ l # after \<and>
    (\<forall>x \<in> set (before @ [l]). length x < MaxScanTokenSize) \<and>
    (Contains l ''Error:'' \<or> Contains l boxError)"
  then have "dropCR l \<in> set (Scan content)"
    using Scan_reached [of content before l after] by simp
  moreover have "Contains (dropCR l) ''Error:'' \<or> Contains (dropCR l) boxError"
    using a by (simp only: marker_line)
  ultimately show "\<not> isTerraformRunSuccessful (Inr content)"
    unfolding isTerraformRunSuccessful_def sum.case isTerraformRunSuccessful_scan_iff by blast
next
  assume n: "\<forall>x \<in> set (rawLinesFrom [] content). \<not> Contains x ''Error:'' \<and> \<not> Contains x boxError"
  have "\<not> Contains x ''Error:'' \<and> \<not> Contains x boxError" if xs: "x \<in> set (Scan content)" for x
  proof -
    obtain r where r: "r \<in> set (rawLinesFrom [] content)" "x = dropCR r"
      using Scan_subset [OF xs] by blast
    then have "\<not> (Contains r ''Error:'' \<or> Contains r boxError)" using n by blast
    then show ?thesis unfolding r(2) using marker_line [of r] by blast
  qed
  then show "isTerraformRunSuccessful (Inr content)"
    unfolding isTerraformRunSuccessful_def sum.case isTerraformRunSuccessful_scan_iff by blast
next
  show "\<not> isTerraformRunSuccessful (Inl err)" by (simp add: isTerraformRunSuccessful_def)
next
  assume "\<exists>x \<in> set (Scan content). Contains x ''Error:'' \<or> Contains x boxError"
  then show "\<not> isTerraformRunSuccessful (Inr content)"
    unfolding isTerraformRunSuccessful_def sum.case isTerraformRunSuccessful_scan_iff by blast
next
  assume "\<forall>x \<in> set (Scan content). \<not> Contains x ''Error:'' \<and> \<not> Contains x boxError"
  then show "isTerraformRunSuccessful (Inr content)"
    unfolding isTerraformRunSuccessful_def sum.case isTerraformRunSuccessful_scan_iff by blast
qed

theorem isTerraformRunSuccessful_rule_witness:
  "\<not> isTerraformRunSuccessful
       (Inr (''Plan: 1 to add, 0 to change, 0 to destroy.'' @ [CHR 0x0A] @
             ''Error: Invalid reference'' @ [CHR 0x0A])) \<and>
   \<not> isTerraformRunSuccessful
       (Inr ([CHR 0xE2, CHR 0x94, CHR 0x82] @ '' Error creating S3 bucket'' @ [CHR 0x0A])) \<and>
   isTerraformRunSuccessful
       (Inr (''Apply complete! Resources: 2 added, 1 changed, 0 destroyed.'' @ [CHR 0x0A])) \<and>
   \<not> isTerraformRunSuccessful (Inl ''open apply.log: no such file or directory'')"
proof -
  note r = isTerraformRunSuccessful_rule
  have l1: "rawLinesFrom [] (''Plan: 1 to add, 0 to change, 0 to destroy.'' @ [CHR 0x0A] @
             ''Error: Invalid reference'' @ [CHR 0x0A]) =
           [''Plan: 1 to add, 0 to change, 0 to destroy.''] @ ''Error: Invalid reference'' # []"
    by simp
  have h1: "(\<forall>x \<in> set ([''Plan: 1 to add, 0 to change, 0 to destroy.''] @ [''Error: Invalid reference'']).
               length x < MaxScanTokenSize) \<and>
            (Contains ''Error: Invalid reference'' ''Error:'' \<or>
             Contains ''Error: Invalid reference'' boxError)"
    by (simp add: MaxScanTokenSize_def)
  have 1: "\<not> isTerraformRunSuccessful
       (Inr (''Plan: 1 to add, 0 to change, 0 to destroy.'' @ [CHR 0x0A] @
             ''Error: Invalid reference'' @ [CHR 0x0A]))"
    using r [of "''Plan: 1 to add, 0 to change, 0 to destroy.'' @ [CHR 0x0A] @
             ''Error: Invalid reference'' @ [CHR 0x0A]"
             "[''Plan: 1 to add, 0 to change, 0 to destroy.'']" "''Error: Invalid reference''" "[]"]
      l1 h1 by blast
  have l2: "rawLinesFrom [] ([CHR 0xE2, CHR 0x94, CHR 0x82] @ '' Error creating S3 bucket'' @ [CHR 0x0A]) =
           [] @ ([CHR 0xE2, CHR 0x94, CHR 0x82] @ '' Error creating S3 bucket'') # []"
    by simp
  have h2: "(\<forall>x \<in> set ([] @ [[CHR 0xE2, CHR 0x94, CHR 0x82] @ '' Error creating S3 bucket'']).
               length x < MaxScanTokenSize) \<and>
            (Contains ([CHR 0xE2, CHR 0x94, CHR 0x82] @ '' Error creating S3 bucket'') ''Error:'' \<or>
             Contains ([CHR 0xE2, CHR 0x94, CHR 0x82] @ '' Error creating S3 bucket'') boxError)"
    by (simp add: MaxScanTokenSize_def boxError_def)
  have 2: "\<not> isTerraformRunSuccessful
       (Inr ([CHR 0xE2, CHR 0x94, CHR 0x82] @ '' Error creating S3 bucket'' @ [CHR 0x0A]))"
    using r [of "[CHR 0xE2, CHR 0x94, CHR 0x82] @ '' Error creating S3 bucket'' @ [CHR 0x0A]"
             "[]" "[CHR 0xE2, CHR 0x94, CHR 0x82] @ '' Error creating S3 bucket''" "[]"]
      l2 h2 by blast
  have h3: "\<forall>x \<in> set (rawLinesFrom []
               (''Apply complete! Resources: 2 added, 1 changed, 0 destroyed.'' @ [CHR 0x0A])).
              \<not> Contains x ''Error:'' \<and> \<not> Contains x boxError"
    by (simp add: boxError_def)
  have 3: "isTerraformRunSuccessful
       (Inr (''Apply complete! Resources: 2 added, 1 changed, 0 destroyed.'' @ [CHR 0x0A]))"
    using r [of "''Apply complete! Resources: 2 added, 1 changed, 0 destroyed.'' @ [CHR 0x0A]"] h3
    by blast
  have 4: "\<not> isTerraformRunSuccessful (Inl ''open apply.log: no such file or directory'')"
    using r by blast
  show ?thesis using 1 2 3 4 by (simp only: simp_thms)
qed

text \<open>
  C8 as stated fails: the second line of \<open>hiddenError\<close> contains \<open>Error:\<close>, but it comes
  after a line of 65536 bytes, and the function returns true.
\<close>

theorem isTerraformRunSuccessful_long_line_counterexample:
  "''Error: boom'' \<in> set (rawLinesFrom [] hiddenError) \<and>
   Contains ''Error: boom'' ''Error:'' \<and>
   isTerraformRunSuccessful (Inr hiddenError)"
proof -
  have "rawLinesFrom [] hiddenError = longLine # rawLinesFrom [] (''Error: boom'' @ [CHR 0x0A])"
    unfolding hiddenError_def using rawLinesFrom_line [OF longLine_facts(1), of "[]"] by simp
  then have 1: "''Error: boom'' \<in> set (rawLinesFrom [] hiddenError)" by simp
  have "Scan hiddenError = []"
    unfolding hiddenError_def using Scan_long_line [OF longLine_facts] by simp
  then have 2: "isTerraformRunSuccessful (Inr hiddenError)"
    by (simp add: isTerraformRunSuccessful_def)
  have 3: "Contains ''Error: boom'' ''Error:''" by simp
  show ?thesis using 1 2 3 by (simp only: simp_thms)
qed

section \<open>The tally of the plan\<close>

lemma single_update:
  "(length actions = Suc 0 \<and> actions ! 0 = ''update'') = (actions = [''update''])"
  by (cases actions) auto

lemma collectMetrics_tally_eq:
  "collectMetrics_tally t rc =
     \<lparr>total = total t + 1,
      toAdd = toAdd t + (if ''create'' \<in> set (Actions (Change rc)) then 1 else 0),
      toChange = toChange t + (if ''update'' \<in> set (Actions (Change rc)) then 1 else 0),
      toDestroy = toDestroy t + (if ''delete'' \<in> set (Actions (Change rc)) then 1 else 0),
      toImport = toImport t + (if ''import'' \<in> set (Actions (Change rc)) then 1 else 0)\<rparr>"
  by (simp add: collectMetrics_tally_def Let_def contains_iff)

lemma parseTerraformPlan_count_eq:
  "parseTerraformPlan_count c rc =
     \<lparr>p_total = p_total c + 1,
      p_added = p_added c + (if ''create'' \<in> set (Actions (Change rc)) then 1 else 0),
      p_changed = p_changed c + (if ''update'' \<in> set (Actions (Change rc)) then 1 else 0),
      p_destroyed = p_destroyed c + (if ''delete'' \<in> set (Actions (Change rc)) then 1 else 0),
      p_drift = p_drift c + (if Actions (Change rc) = [''update''] then 1 else 0)\<rparr>"
  by (simp add: parseTerraformPlan_count_def Let_def contains_iff single_update)

text \<open>
  C5. One resource change adds to the buckets by membership of its actions: to add
  when \<open>create\<close> is among them and not otherwise, to change for \<open>update\<close>, to destroy
  for \<open>delete\<close>, and, in \<open>collectMetrics\<close>, to import for \<open>import\<close>. The drift counter
  of \<open>parseTerraformPlan\<close> grows only when the actions are the single action \<open>update\<close>.
  A record with the actions delete, create counts once as added and once as destroyed,
  and leaves the change, import and drift counts as they were.
\<close>

theorem tally_by_membership:
  "collectMetrics_tally t rc =
     \<lparr>total = total t + 1,
      toAdd = toAdd t + (if ''create'' \<in> set (Actions (Change rc)) then 1 else 0),
      toChange = toChange t + (if ''update'' \<in> set (Actions (Change rc)) then 1 else 0),
      toDestroy = toDestroy t + (if ''delete'' \<in> set (Actions (Change rc)) then 1 else 0),
      toImport = toImport t + (if ''import'' \<in> set (Actions (Change rc)) then 1 else 0)\<rparr> \<and>
   parseTerraformPlan_count c rc =
     \<lparr>p_total = p_total c + 1,
      p_added = p_added c + (if ''create'' \<in> set (Actions (Change rc)) then 1 else 0),
      p_changed = p_changed c + (if ''update'' \<in> set (Actions (Change rc)) then 1 else 0),
      p_destroyed = p_destroyed c + (if ''delete'' \<in> set (Actions (Change rc)) then 1 else 0),
      p_drift = p_drift c + (if Actions (Change rc) = [''update''] then 1 else 0)\<rparr> \<and>
   (Actions (Change rc) = [''delete'', ''create''] \<longrightarrow>
      collectMetrics_tally t rc = t\<lparr>total := total t + 1, toAdd := toAdd t + 1,
                                      toDestroy := toDestroy t + 1\<rparr> \<and>
      parseTerraformPlan_count c rc = c\<lparr>p_total := p_total c + 1, p_added := p_added c + 1,
                                          p_destroyed := p_destroyed c + 1\<rparr>)"
  by (simp add: collectMetrics_tally_eq parseTerraformPlan_count_eq)

theorem tally_by_membership_witness:
  "collectMetrics_tally zeroTally
     \<lparr>Type = ''aws_instance'', Change = \<lparr>Actions = [''delete'', ''create'']\<rparr>\<rparr> =
     \<lparr>total = 1, toAdd = 1, toChange = 0, toDestroy = 1, toImport = 0\<rparr> \<and>
   parseTerraformPlan_count zeroCounts
     \<lparr>Type = ''aws_instance'', Change = \<lparr>Actions = [''delete'', ''create'']\<rparr>\<rparr> =
     \<lparr>p_total = 1, p_added = 1, p_changed = 0, p_destroyed = 1, p_drift = 0\<rparr>"
  using tally_by_membership
    [of zeroTally "\<lparr>Type = ''aws_instance'', Change = \<lparr>Actions = [''delete'', ''create'']\<rparr>\<rparr>"
        zeroCounts]
  by (simp add: zeroTally_def zeroCounts_def)

lemma foldl_p_drift:
  "p_drift (foldl parseTerraformPlan_count c rcs) =
     p_drift c + int (length (filter (\<lambda>rc. Actions (Change rc) = [''update'']) rcs))"
  by (induction rcs arbitrary: c) (simp_all add: parseTerraformPlan_count_eq)

lemma min_go_1: "0 \<le> n \<Longrightarrow> min_go 1 n = (if 0 < n then 1 else 0)"
  by (simp add: min_go_def)

lemma plan_drift_signal:
  "min_go 1 (p_drift (foldl parseTerraformPlan_count zeroCounts rcs)) =
     (if \<exists>rc \<in> set rcs. Actions (Change rc) = [''update''] then 1 else 0)"
proof -
  let ?n = "length (filter (\<lambda>rc. Actions (Change rc) = [''update'']) rcs)"
  have "p_drift (foldl parseTerraformPlan_count zeroCounts rcs) = int ?n"
    by (simp add: foldl_p_drift zeroCounts_def)
  moreover have "0 < ?n \<longleftrightarrow> (\<exists>rc \<in> set rcs. Actions (Change rc) = [''update''])"
    by (auto simp: filter_empty_conv)
  ultimately show ?thesis by (simp add: min_go_1)
qed

text \<open>
  C6. After \<open>parseTerraformPlan\<close> has read and decoded a plan, the gauge
  \<open>driftDetected\<close> is 1 when at least one resource change of the plan has the single
  action \<open>update\<close> and 0 otherwise; it is 0 for a plan with no resource changes.
\<close>

theorem parseTerraformPlan_driftDetected:
  assumes "ReadFile w path = Inr data" and "Unmarshal w data = (plan, None)"
  shows "driftDetected (snd (parseTerraformPlan w path g)) =
           (if \<exists>rc \<in> set (ResourceChanges plan). Actions (Change rc) = [''update''] then 1 else 0) \<and>
         (ResourceChanges plan = [] \<longrightarrow> driftDetected (snd (parseTerraformPlan w path g)) = 0)"
  using assms by (simp add: parseTerraformPlan_def Let_def plan_drift_signal)

theorem parseTerraformPlan_driftDetected_witness:
  "driftDetected (snd (parseTerraformPlan driftRun ''plan.json'' initialGauges)) = 1"
proof -
  have r: "ReadFile driftRun ''plan.json'' = Inr updatePlanBytes"
    by (simp add: driftRun_def)
  have u: "Unmarshal driftRun updatePlanBytes = (updatePlan, None)"
    by (simp add: driftRun_def)
  show ?thesis
    using parseTerraformPlan_driftDetected [OF r u, of initialGauges]
    by (simp add: updatePlan_def)
qed

section \<open>The set of metrics\<close>

lemma metrics_other:
  "name \<notin> set (map fst gs) \<Longrightarrow>
   foldl (\<lambda>metrics (name, hlp, val). makeGauge name hlp val metrics) m gs name = m name"
  by (induction gs arbitrary: m) (auto simp: makeGauge_def)

lemma metrics_lookup:
  "distinct (map fst gs) \<Longrightarrow> (name, hlp, val) \<in> set gs \<Longrightarrow>
   foldl (\<lambda>metrics (name, hlp, val). makeGauge name hlp val metrics) m gs name =
     Some \<lparr>gname = name, ghelp = hlp, gvalue = val\<rparr>"
proof (induction gs arbitrary: m)
  case Nil
  then show ?case by simp
next
  case (Cons g gs)
  show ?case
  proof (cases "g = (name, hlp, val)")
    case True
    then have n: "name \<notin> set (map fst gs)" using Cons.prems(1) by auto
    have "foldl (\<lambda>metrics (name, hlp, val). makeGauge name hlp val metrics) m (g # gs) name =
          foldl (\<lambda>metrics (name, hlp, val). makeGauge name hlp val metrics)
            (makeGauge name hlp val m) gs name"
      by (simp add: True)
    also have "\<dots> = makeGauge name hlp val m name"
      using n by (rule metrics_other)
    also have "\<dots> = Some \<lparr>gname = name, ghelp = hlp, gvalue = val\<rparr>"
      by (simp add: makeGauge_def)
    finally show ?thesis .
  next
    case False
    then have "(name, hlp, val) \<in> set gs" using Cons.prems(2) by simp
    moreover have "distinct (map fst gs)" using Cons.prems(1) by simp
    ultimately show ?thesis using Cons.IH by simp
  qed
qed


lemma collectMetrics_gauges_names:
  "map fst (collectMetrics_gauges w) =
     [''terraform_execution_duration_seconds'', ''terraform_timestamp'',
      ''terraform_drift_detected'', ''terraform_resources_total'', ''terraform_to_add'',
      ''terraform_to_change'', ''terraform_to_destroy'', ''terraform_to_import'']
     @ (if Getenv w ''TERRAFORM_APPLY_LOG_PATH'' \<noteq> []
        then [''terraform_added'', ''terraform_changed'', ''terraform_destroyed'',
              ''terraform_imported'']
        else [])
     @ [''terraform_result'']"
  by (simp add: collectMetrics_gauges_def Let_def)

lemma collectMetrics_gauges_distinct: "distinct (map fst (collectMetrics_gauges w))"
  unfolding collectMetrics_gauges_names by simp



section \<open>The drift gauge\<close>

lemma collectMetrics_gauges_drift:
  "(''terraform_drift_detected'', ''Drift found during refresh'',
    fst (detectDrift (ReadFile w (Getenv w ''TERRAFORM_REFRESH_LOG_PATH''))))
   \<in> set (collectMetrics_gauges w)"
  by (simp add: collectMetrics_gauges_def Let_def)

text \<open>
  C1, as amended. The gauge \<open>terraform_drift_detected\<close> that \<open>collectMetrics\<close> publishes
  is the result of \<open>detectDrift\<close> on the refresh log and nothing else; the plan has no
  part in it.
\<close>

theorem collectMetrics_drift_gauge:
  "collectMetrics_metrics w ''terraform_drift_detected'' =
     Some \<lparr>gname = ''terraform_drift_detected'', ghelp = ''Drift found during refresh'',
           gvalue = fst (detectDrift (ReadFile w (Getenv w ''TERRAFORM_REFRESH_LOG_PATH'')))\<rparr>"
  unfolding collectMetrics_metrics_def
  by (rule metrics_lookup [OF collectMetrics_gauges_distinct collectMetrics_gauges_drift])

lemma driftRun_refresh:
  "detectDrift (ReadFile driftRun (Getenv driftRun ''TERRAFORM_REFRESH_LOG_PATH'')) = (0, [])"
  by (simp add: driftRun_def exampleEnv_def detectDrift_def)

lemma driftRun_plan_drift:
  "driftDetected (snd (parseTerraformPlan driftRun ''plan.json'' initialGauges)) = 1"
  by (simp add: parseTerraformPlan_def driftRun_def Let_def plan_drift_signal updatePlan_def)

theorem collectMetrics_drift_gauge_witness:
  "map_option gvalue (collectMetrics_metrics driftRun ''terraform_drift_detected'') = Some 0"
  using collectMetrics_drift_gauge [of driftRun] by (simp add: driftRun_refresh)

text \<open>
  C1 as stated fails: in \<open>driftRun\<close> a refresh log is configured and the plan has a
  resource change with the single action \<open>update\<close>, so the plan-derived signal of
  \<open>parseTerraformPlan\<close> is 1, yet the published gauge is 0.
\<close>

theorem collectMetrics_drift_or_counterexample:
  "Getenv driftRun ''TERRAFORM_REFRESH_LOG_PATH'' = ''refresh.log'' \<and>
   \<not> (gvalue (the (collectMetrics_metrics driftRun ''terraform_drift_detected'')) = 1 \<longleftrightarrow>
        driftDetected (snd (parseTerraformPlan driftRun ''plan.json'' initialGauges)) = 1 \<or>
        fst (detectDrift (ReadFile driftRun ''refresh.log'')) = 1)"
proof -
  have e: "Getenv driftRun ''TERRAFORM_REFRESH_LOG_PATH'' = ''refresh.log''"
    by (simp add: driftRun_def exampleEnv_def)
  have g: "gvalue (the (collectMetrics_metrics driftRun ''terraform_drift_detected'')) = 0"
    by (simp add: metrics_lookup [OF collectMetrics_gauges_distinct collectMetrics_gauges_drift]
          collectMetrics_metrics_def driftRun_refresh)
  show ?thesis using e g driftRun_plan_drift by simp
qed

section \<open>The plan file that is absent or does not decode\<close>

lemma collectMetrics_gauges_cong:
  assumes "Getenv w1 = Getenv w2" and "Open w1 = Open w2"
    and "ReadFile w1 (Getenv w1 ''TERRAFORM_REFRESH_LOG_PATH'') =
         ReadFile w2 (Getenv w2 ''TERRAFORM_REFRESH_LOG_PATH'')"
    and "collectMetrics_plan w1 = collectMetrics_plan w2"
    and "Since w1 = Since w2" and "NowUnix w1 = NowUnix w2"
    and "ParseRFC3339 w1 = ParseRFC3339 w2"
  shows "collectMetrics_gauges w1 = collectMetrics_gauges w2"
  unfolding collectMetrics_gauges_def Let_def assms(1) assms(2) assms(4) assms(5) assms(6) assms(7)
    assms(3) [unfolded assms(1)]
  by (rule refl)

lemma collectMetrics_gauges_planned:
  "(''terraform_resources_total'', ''Total planned resource changes'',
    real_of_int (total (foldl collectMetrics_tally zeroTally (ResourceChanges (collectMetrics_plan w)))))
     \<in> set (collectMetrics_gauges w)"
  "(''terraform_to_add'', ''Resources planned to be added'',
    real_of_int (toAdd (foldl collectMetrics_tally zeroTally (ResourceChanges (collectMetrics_plan w)))))
     \<in> set (collectMetrics_gauges w)"
  "(''terraform_to_change'', ''Resources planned to be changed'',
    real_of_int (toChange (foldl collectMetrics_tally zeroTally (ResourceChanges (collectMetrics_plan w)))))
     \<in> set (collectMetrics_gauges w)"
  "(''terraform_to_destroy'', ''Resources planned to be destroyed'',
    real_of_int (toDestroy (foldl collectMetrics_tally zeroTally (ResourceChanges (collectMetrics_plan w)))))
     \<in> set (collectMetrics_gauges w)"
  "(''terraform_to_import'', ''Resources planned to be imported'',
    real_of_int (toImport (foldl collectMetrics_tally zeroTally (ResourceChanges (collectMetrics_plan w)))))
     \<in> set (collectMetrics_gauges w)"
  by (simp_all add: collectMetrics_gauges_def Let_def)

lemma collectMetrics_planned_zero:
  assumes "collectMetrics_plan w = zeroPlanJSON"
  shows "map_option gvalue (collectMetrics_metrics w ''terraform_resources_total'') = Some 0 \<and>
         map_option gvalue (collectMetrics_metrics w ''terraform_to_add'') = Some 0 \<and>
         map_option gvalue (collectMetrics_metrics w ''terraform_to_change'') = Some 0 \<and>
         map_option gvalue (collectMetrics_metrics w ''terraform_to_destroy'') = Some 0 \<and>
         map_option gvalue (collectMetrics_metrics w ''terraform_to_import'') = Some 0"
proof -
  note l = metrics_lookup [OF collectMetrics_gauges_distinct, of _ _ _ w Map.empty,
      folded collectMetrics_metrics_def]
  have z: "foldl collectMetrics_tally zeroTally (ResourceChanges (collectMetrics_plan w)) = zeroTally"
    by (simp add: assms zeroPlanJSON_def)
  have "map_option gvalue (collectMetrics_metrics w ''terraform_resources_total'') = Some 0"
    using l [OF collectMetrics_gauges_planned(1)] unfolding z by (simp add: zeroTally_def)
  moreover have "map_option gvalue (collectMetrics_metrics w ''terraform_to_add'') = Some 0"
    using l [OF collectMetrics_gauges_planned(2)] unfolding z by (simp add: zeroTally_def)
  moreover have "map_option gvalue (collectMetrics_metrics w ''terraform_to_change'') = Some 0"
    using l [OF collectMetrics_gauges_planned(3)] unfolding z by (simp add: zeroTally_def)
  moreover have "map_option gvalue (collectMetrics_metrics w ''terraform_to_destroy'') = Some 0"
    using l [OF collectMetrics_gauges_planned(4)] unfolding z by (simp add: zeroTally_def)
  moreover have "map_option gvalue (collectMetrics_metrics w ''terraform_to_import'') = Some 0"
    using l [OF collectMetrics_gauges_planned(5)] unfolding z by (simp add: zeroTally_def)
  ultimately show ?thesis by (simp only: simp_thms)
qed

lemma collectMetrics_plan_absent:
  "ReadFile w (Getenv w ''TERRAFORM_PLAN_PATH'') = Inl err \<Longrightarrow> collectMetrics_plan w = zeroPlanJSON"
  by (simp add: collectMetrics_plan_def)

lemma collectMetrics_gauges_decode_error:
  "collectMetrics_gauges (w\<lparr>Unmarshal := \<lambda>data. (fst (Unmarshal w data), None)\<rparr>) =
   collectMetrics_gauges w"
  by (rule collectMetrics_gauges_cong) (simp_all add: collectMetrics_plan_def split: sum.split)

lemma absentRun_plan: "ReadFile absentRun (Getenv absentRun ''TERRAFORM_PLAN_PATH'') =
    Inl ''open plan.json: no such file or directory''"
  by (simp add: absentRun_def driftRun_def exampleEnv_def)

lemma malformedRun_plan:
  "ReadFile malformedRun (Getenv malformedRun ''TERRAFORM_PLAN_PATH'') = Inr cutPlanBytes"
  by (simp add: malformedRun_def driftRun_def exampleEnv_def)

lemma malformedRun_decode:
  "Unmarshal malformedRun cutPlanBytes = (zeroPlanJSON, Some ''unexpected end of JSON input'')"
  by (simp add: malformedRun_def driftRun_def cutPlanBytes_def updatePlanBytes_def)

lemma malformedRun_gauges: "collectMetrics_gauges malformedRun = collectMetrics_gauges absentRun"
proof (rule collectMetrics_gauges_cong)
  show "collectMetrics_plan malformedRun = collectMetrics_plan absentRun"
    by (simp add: collectMetrics_plan_def malformedRun_plan absentRun_plan malformedRun_decode)
qed (simp_all add: malformedRun_def absentRun_def driftRun_def exampleEnv_def)

text \<open>
  C3, as amended. When the plan file cannot be read, \<open>collectMetrics\<close> goes on with the
  zero-valued plan and publishes 0 for the total and for every planned count, while
  \<open>parseTerraformPlan\<close> returns the read error and leaves the gauges as they were. When
  the file is read and does not decode, \<open>parseTerraformPlan\<close> returns the decode error,
  a value different from every read error; \<open>collectMetrics\<close> drops the decode error:
  its metrics and its result are those of a run in which the decoder left the same plan
  and reported no error.
\<close>

theorem plan_failure_modes:
  "(ReadFile w (Getenv w ''TERRAFORM_PLAN_PATH'') = Inl err \<longrightarrow>
      map_option gvalue (collectMetrics_metrics w ''terraform_resources_total'') = Some 0 \<and>
      map_option gvalue (collectMetrics_metrics w ''terraform_to_add'') = Some 0 \<and>
      map_option gvalue (collectMetrics_metrics w ''terraform_to_change'') = Some 0 \<and>
      map_option gvalue (collectMetrics_metrics w ''terraform_to_destroy'') = Some 0 \<and>
      map_option gvalue (collectMetrics_metrics w ''terraform_to_import'') = Some 0) \<and>
   (ReadFile w path = Inl err \<longrightarrow>
      parseTerraformPlan w path g = (Some (ReadFileError err), g)) \<and>
   (ReadFile w path = Inr data \<and> Unmarshal w data = (plan, Some derr) \<longrightarrow>
      parseTerraformPlan w path g = (Some (UnmarshalError derr), g) \<and>
      UnmarshalError derr \<noteq> ReadFileError err) \<and>
   collectMetrics_metrics (w\<lparr>Unmarshal := \<lambda>data. (fst (Unmarshal w data), None)\<rparr>) =
     collectMetrics_metrics w \<and>
   collectMetrics (w\<lparr>Unmarshal := \<lambda>data. (fst (Unmarshal w data), None)\<rparr>) = collectMetrics w"
proof (intro conjI impI)
  assume "ReadFile w (Getenv w ''TERRAFORM_PLAN_PATH'') = Inl err"
  then have z: "collectMetrics_plan w = zeroPlanJSON" by (rule collectMetrics_plan_absent)
  note p = collectMetrics_planned_zero [OF z]
  show "map_option gvalue (collectMetrics_metrics w ''terraform_resources_total'') = Some 0"
    using p by (simp only:)
  show "map_option gvalue (collectMetrics_metrics w ''terraform_to_add'') = Some 0"
    using p by (simp only:)
  show "map_option gvalue (collectMetrics_metrics w ''terraform_to_change'') = Some 0"
    using p by (simp only:)
  show "map_option gvalue (collectMetrics_metrics w ''terraform_to_destroy'') = Some 0"
    using p by (simp only:)
  show "map_option gvalue (collectMetrics_metrics w ''terraform_to_import'') = Some 0"
    using p by (simp only:)
next
  assume "ReadFile w path = Inl err"
  then show "parseTerraformPlan w path g = (Some (ReadFileError err), g)"
    by (simp add: parseTerraformPlan_def)
next
  assume "ReadFile w path = Inr data \<and> Unmarshal w data = (plan, Some derr)"
  then show "parseTerraformPlan w path g = (Some (UnmarshalError derr), g)"
    by (simp add: parseTerraformPlan_def)
next
  show "UnmarshalError derr \<noteq> ReadFileError err" by simp
next
  show m: "collectMetrics_metrics (w\<lparr>Unmarshal := \<lambda>data. (fst (Unmarshal w data), None)\<rparr>) =
     collectMetrics_metrics w"
    by (simp only: collectMetrics_metrics_def collectMetrics_gauges_decode_error)
  show "collectMetrics (w\<lparr>Unmarshal := \<lambda>data. (fst (Unmarshal w data), None)\<rparr>) = collectMetrics w"
    unfolding collectMetrics_def m by simp
qed

theorem plan_failure_modes_witness:
  "map_option gvalue (collectMetrics_metrics absentRun ''terraform_resources_total'') = Some 0 \<and>
   parseTerraformPlan absentRun ''plan.json'' initialGauges =
     (Some (ReadFileError ''open plan.json: no such file or directory''), initialGauges) \<and>
   parseTerraformPlan malformedRun ''plan.json'' initialGauges =
     (Some (UnmarshalError ''unexpected end of JSON input''), initialGauges)"
proof -
  have a: "ReadFile absentRun ''plan.json'' = Inl ''open plan.json: no such file or directory''"
    by (simp add: absentRun_def)
  have m: "ReadFile malformedRun ''plan.json'' = Inr cutPlanBytes \<and>
           Unmarshal malformedRun cutPlanBytes = (zeroPlanJSON, Some ''unexpected end of JSON input'')"
    by (simp add: malformedRun_decode) (simp add: malformedRun_def)
  have 1: "map_option gvalue (collectMetrics_metrics absentRun ''terraform_resources_total'') = Some 0"
    using plan_failure_modes [of absentRun "''open plan.json: no such file or directory''"]
      absentRun_plan by (simp only: simp_thms)
  have 2: "parseTerraformPlan absentRun ''plan.json'' initialGauges =
     (Some (ReadFileError ''open plan.json: no such file or directory''), initialGauges)"
    using plan_failure_modes
      [of absentRun "''open plan.json: no such file or directory''" "''plan.json''"] a
    by (simp only: simp_thms)
  have 3: "parseTerraformPlan malformedRun ''plan.json'' initialGauges =
     (Some (UnmarshalError ''unexpected end of JSON input''), initialGauges)"
    using plan_failure_modes
      [of malformedRun _ "''plan.json''" _ cutPlanBytes zeroPlanJSON
          "''unexpected end of JSON input''"] m
    by (simp only: simp_thms)
  show ?thesis using 1 2 3 by (simp only: simp_thms)
qed

text \<open>
  C3 as stated fails for \<open>collectMetrics\<close>: in \<open>malformedRun\<close> the plan file is read and
  the decoder fails on it, yet the function returns no error and publishes the very
  metrics of \<open>absentRun\<close>, where the file does not exist.
\<close>

theorem collectMetrics_decode_error_counterexample:
  "ReadFile malformedRun (Getenv malformedRun ''TERRAFORM_PLAN_PATH'') = Inr cutPlanBytes \<and>
   snd (Unmarshal malformedRun cutPlanBytes) = Some ''unexpected end of JSON input'' \<and>
   ReadFile absentRun (Getenv absentRun ''TERRAFORM_PLAN_PATH'') =
     Inl ''open plan.json: no such file or directory'' \<and>
   collectMetrics_metrics malformedRun = collectMetrics_metrics absentRun \<and>
   collectMetrics malformedRun = None \<and>
   collectMetrics absentRun = None"
proof -
  have "collectMetrics_metrics malformedRun = collectMetrics_metrics absentRun"
    by (simp only: collectMetrics_metrics_def malformedRun_gauges)
  moreover have "collectMetrics malformedRun = None"
    by (simp add: collectMetrics_def malformedRun_def driftRun_def)
  moreover have "collectMetrics absentRun = None"
    by (simp add: collectMetrics_def absentRun_def driftRun_def)
  ultimately show ?thesis
    by (simp add: malformedRun_plan malformedRun_decode absentRun_plan)
qed

end
